theory Spec2Isabelle
  imports Complex_Main
begin

section \<open>Data model\<close>

text \<open>
  The chunker of \<^verbatim>\<open>src/src/data_processing.py\<close> and the retriever builder of
  \<^verbatim>\<open>src/src/vector_store.py\<close>. Python strings are \<^typ>\<open>string\<close>; the newline and the
  apostrophe of the f-strings are written as characters.
\<close>

abbreviation nl :: char where
  "nl \<equiv> CHR 0x0A"

abbreviation apostrophe :: char where
  "apostrophe \<equiv> CHR 0x27"

text \<open>
  The element classes \<^verbatim>\<open>Title, Header, NarrativeText, ListItem, Text, Image, Table\<close> are
  imported from the \<^verbatim>\<open>unstructured\<close> library, whose class declarations are not part of
  the repository. As the library declares them, \<^verbatim>\<open>Text\<close> is the base class of the other
  six, and of further classes such as \<^verbatim>\<open>Footer\<close> or \<^verbatim>\<open>FigureCaption\<close>; a few classes,
  such as \<^verbatim>\<open>CheckBox\<close>, lie outside \<^verbatim>\<open>Text\<close>. The kind of an element is the most
  specific of the seven named classes it belongs to: \<open>Text\<close> for an element of class
  \<^verbatim>\<open>Text\<close> or of a subclass that the source does not name, \<open>Other\<close> for an element
  outside \<^verbatim>\<open>Text\<close>.
\<close>

datatype kind = Title | Header | NarrativeText | ListItem | Text | Image | Table | Other

text \<open>
  \<^verbatim>\<open>isinstance(el, cls)\<close> for a named class: an element belongs to the class of its
  kind, and every kind but \<open>Other\<close> belongs to \<^verbatim>\<open>Text\<close>.
\<close>

definition isinstance :: "kind \<Rightarrow> kind \<Rightarrow> bool" where
  "isinstance k cls \<longleftrightarrow> k = cls \<or> (cls = Text \<and> k \<noteq> Other)"

text \<open>
  An element as the loop reads it: \<^verbatim>\<open>el.text\<close>, and of \<^verbatim>\<open>el.metadata\<close> the attributes
  \<^verbatim>\<open>page_number\<close>, \<^verbatim>\<open>image_path\<close> and \<^verbatim>\<open>text_as_html\<close>, each of which may be
  \<^verbatim>\<open>None\<close>.
\<close>

record element =
  kind :: kind
  "text" :: string
  meta_page_number :: "int option"
  meta_image_path :: "string option"
  meta_text_as_html :: "string option"

text \<open>The metadata dictionary of a document, with its three keys.\<close>

record doc_metadata =
  source :: string
  page_number :: int
  element_id :: int

text \<open>\<^verbatim>\<open>Document(page_content=..., metadata=...)\<close>.\<close>

record document =
  page_content :: string
  metadata :: doc_metadata

text \<open>
  Exceptions. \<open>ValueError\<close> is raised by the source itself; \<open>ExternalError\<close> is any
  exception raised inside a library or service call; \<open>UnboundLocalError\<close> is what
  Python raises when line 107 reads \<^verbatim>\<open>metadata\<close> and the loop has never assigned it.
\<close>

datatype error = ValueError string | ExternalError string | UnboundLocalError string

section \<open>The outside world\<close>

text \<open>
  Every call that leaves the program (the file system, the PDF partitioner, the chat
  model) takes the state of the world \<open>'w\<close> and returns the new one with its result,
  which is either the exception raised or the value returned. Two calls with equal
  arguments may answer differently, since the world between them has changed.
\<close>

type_synonym ('a, 'w) io = "'w \<Rightarrow> (error + 'a) \<times> 'w"

datatype content_part = TextPart string | ImageUrlPart string

datatype message_content = StrContent string | PartsContent "content_part list"

text \<open>
  \<^verbatim>\<open>ChatOpenAI(model=..., api_key=..., max_tokens=..., temperature=...)\<close> followed by
  \<^verbatim>\<open>.invoke([HumanMessage(content=...)])\<close>; the answer is \<^verbatim>\<open>response.content\<close>.
\<close>

record chat_request =
  model :: string
  api_key :: "string option"
  max_tokens :: "int option"
  temperature :: "int option"
  content :: message_content

record 'w collaborators =
  read_file :: "string option \<Rightarrow> (string, 'w) io"
  b64encode :: "string \<Rightarrow> string"
  chat_invoke :: "chat_request \<Rightarrow> (string, 'w) io"
  os_makedirs :: "string \<Rightarrow> (unit, 'w) io"
  partition_pdf :: "string \<Rightarrow> string \<Rightarrow> (element list, 'w) io"

section \<open>Strings and paths\<close>

text \<open>
  \<^verbatim>\<open>str.strip()\<close> removes leading and trailing whitespace. A character stands for the
  code point of its number, so a string holds code points below 256; the ones that
  \<^verbatim>\<open>str.isspace\<close> accepts in that range are listed below.
\<close>

definition py_isspace :: "char \<Rightarrow> bool" where
  "py_isspace ch \<longleftrightarrow>
     ch \<in> set [CHR 0x09, CHR 0x0A, CHR 0x0B, CHR 0x0C, CHR 0x0D,
               CHR 0x1C, CHR 0x1D, CHR 0x1E, CHR 0x1F, CHR 0x20, CHR 0x85, CHR 0xA0]"

definition strip :: "string \<Rightarrow> string" where
  "strip s = rev (dropWhile py_isspace (rev (dropWhile py_isspace s)))"

text \<open>\<^verbatim>\<open>os.path.basename\<close> and \<^verbatim>\<open>os.path.join\<close> of two components, on POSIX paths.\<close>

definition basename :: "string \<Rightarrow> string" where
  "basename p = rev (takeWhile (\<lambda>ch. ch \<noteq> CHR ''/'') (rev p))"

definition os_path_join :: "string \<Rightarrow> string \<Rightarrow> string" where
  "os_path_join a b =
     (if b \<noteq> [] \<and> hd b = CHR ''/'' then b
      else if a = [] \<or> last a = CHR ''/'' then a @ b
      else a @ ''/'' @ b)"

text \<open>Truth value of an optional string: \<^verbatim>\<open>None\<close> and the empty string are false.\<close>

fun truthy :: "string option \<Rightarrow> bool" where
  "truthy None = False"
| "truthy (Some s) = (s \<noteq> [])"

section \<open>Image and table summarisation\<close>

text \<open>
  \<^verbatim>\<open>encode_image\<close>: opening the file raises when the path is \<^verbatim>\<open>None\<close> or the file
  cannot be read; that is left to \<open>read_file\<close>.
\<close>

definition encode_image :: "'w collaborators \<Rightarrow> string option \<Rightarrow> (string, 'w) io" where
  "encode_image c image_path w =
     (case read_file c image_path w of
        (Inl e, w') \<Rightarrow> (Inl e, w')
      | (Inr bytes, w') \<Rightarrow> (Inr (b64encode c bytes), w'))"

definition summarize_image :: "'w collaborators \<Rightarrow> string \<Rightarrow> string option \<Rightarrow> (string, 'w) io" where
  "summarize_image c encoded_image openai_api_key =
     chat_invoke c
       \<lparr>model = ''gpt-4.1-2025-04-14'', api_key = openai_api_key,
        max_tokens = Some 2048, temperature = None,
        content = PartsContent
          [TextPart ''Describe the image in detail. Be specific about any text, data, or charts visible.'',
           ImageUrlPart (''data:image/jpeg;base64,'' @ encoded_image)]\<rparr>"

definition summarize_table :: "'w collaborators \<Rightarrow> string \<Rightarrow> string option \<Rightarrow> (string, 'w) io" where
  "summarize_table c table_html openai_api_key =
     chat_invoke c
       \<lparr>model = ''gpt-4'', api_key = openai_api_key,
        max_tokens = None, temperature = Some 0,
        content = StrContent
          (''Summarize the following table:'' @ [nl, nl] @ table_html @ [nl, nl] @
           ''Provide a concise summary that captures the key information.'')\<rparr>"

text \<open>The body of the \<^verbatim>\<open>try\<close> of lines 90 to 94, up to the summary.\<close>

definition image_summary :: "'w collaborators \<Rightarrow> element \<Rightarrow> string option \<Rightarrow> (string, 'w) io" where
  "image_summary c el openai_api_key w =
     (case encode_image c (meta_image_path el) w of
        (Inl e, w') \<Rightarrow> (Inl e, w')
      | (Inr encoded_image, w') \<Rightarrow> summarize_image c encoded_image openai_api_key w')"

section \<open>The chunker\<close>

text \<open>
  The \<^verbatim>\<open>isinstance\<close> tests of line 70, \<^verbatim>\<open>isinstance(el, (Title, Header))\<close>, and of
  line 79, \<^verbatim>\<open>isinstance(el, (NarrativeText, ListItem, Text))\<close>. The second holds of an
  image and of a table too, since both classes derive from \<^verbatim>\<open>Text\<close>.
\<close>

abbreviation is_heading :: "element \<Rightarrow> bool" where
  "is_heading el \<equiv> isinstance (kind el) Title \<or> isinstance (kind el) Header"

abbreviation is_text :: "element \<Rightarrow> bool" where
  "is_text el \<equiv>
     isinstance (kind el) NarrativeText \<or> isinstance (kind el) ListItem \<or>
     isinstance (kind el) Text"

text \<open>The local variables of \<^verbatim>\<open>partition_and_chunk\<close> that the loop changes, and the world.\<close>

record 'w loop_state =
  documents :: "document list"
  current_title :: string
  current_text_block :: string
  loop_metadata :: "doc_metadata option"
  world :: 'w

text \<open>Line 68.\<close>

definition element_metadata :: "string \<Rightarrow> nat \<Rightarrow> element \<Rightarrow> doc_metadata" where
  "element_metadata pdf_path i el =
     \<lparr>source = basename pdf_path,
      page_number = (case meta_page_number el of
                       None \<Rightarrow> 1
                     | Some n \<Rightarrow> if n = 0 then 1 else n),
      element_id = int i\<rparr>"

text \<open>The document of lines 73, 85 and 107.\<close>

definition text_document :: "string \<Rightarrow> string \<Rightarrow> doc_metadata \<Rightarrow> document" where
  "text_document title block md =
     \<lparr>page_content = title @ [nl, nl] @ strip block, metadata = md\<rparr>"

definition summary_document :: "string \<Rightarrow> string \<Rightarrow> string \<Rightarrow> doc_metadata \<Rightarrow> document" where
  "summary_document label title summary md =
     \<lparr>page_content = ''['' @ label @ '' under '' @ [apostrophe] @ title @ [apostrophe] @ '']'' @
                       [nl] @ ''Summary: '' @ summary,
      metadata = md\<rparr>"

definition fallback_document :: "string \<Rightarrow> string \<Rightarrow> doc_metadata \<Rightarrow> document" where
  "fallback_document label title md =
     \<lparr>page_content = ''['' @ label @ '' under '' @ [apostrophe] @ title @ [apostrophe] @ '']'',
      metadata = md\<rparr>"

text \<open>Lines 84 to 86: the pending text block is saved and cleared.\<close>

definition flush_block :: "doc_metadata \<Rightarrow> 'w loop_state \<Rightarrow> 'w loop_state" where
  "flush_block md st =
     (if current_text_block st \<noteq> []
      then st\<lparr>documents := documents st @
                  [text_document (current_title st) (current_text_block st) md],
              current_text_block := []\<rparr>
      else st)"

text \<open>Lines 68 to 103: one iteration of the loop, for the element \<open>el\<close> at index \<open>i\<close>.\<close>

definition loop_body ::
  "'w collaborators \<Rightarrow> string \<Rightarrow> bool \<Rightarrow> string option \<Rightarrow> nat \<Rightarrow> element \<Rightarrow>
   'w loop_state \<Rightarrow> 'w loop_state" where
  "loop_body c pdf_path use_enhanced_processing openai_api_key i el st0 =
     (let md = element_metadata pdf_path i el;
          st = st0\<lparr>loop_metadata := Some md\<rparr>
      in
      if is_heading el then
        st\<lparr>documents :=
             (if current_text_block st \<noteq> []
              then documents st @ [text_document (current_title st) (current_text_block st) md]
              else documents st),
           current_title := text el,
           current_text_block := []\<rparr>
      else if is_text el then
        st\<lparr>current_text_block := current_text_block st @ text el @ [nl]\<rparr>
      else if use_enhanced_processing then
        (let st1 = flush_block md st in
         if isinstance (kind el) Image then
           (case image_summary c el openai_api_key (world st1) of
              (Inr summary, w') \<Rightarrow>
                st1\<lparr>documents := documents st1 @
                       [summary_document ''Image'' (current_title st1) summary md],
                    world := w'\<rparr>
            | (Inl e, w') \<Rightarrow>
                st1\<lparr>documents := documents st1 @
                       [fallback_document ''Image'' (current_title st1) md],
                    world := w'\<rparr>)
         else if isinstance (kind el) Table \<and> truthy (meta_text_as_html el) then
           (case summarize_table c (the (meta_text_as_html el)) openai_api_key (world st1) of
              (Inr summary, w') \<Rightarrow>
                st1\<lparr>documents := documents st1 @
                       [summary_document ''Table'' (current_title st1) summary md],
                    world := w'\<rparr>
            | (Inl e, w') \<Rightarrow>
                st1\<lparr>documents := documents st1 @
                       [fallback_document ''Table'' (current_title st1) md],
                    world := w'\<rparr>)
         else st1)
      else st)"

text \<open>Line 67: the loop over \<^verbatim>\<open>enumerate(raw_pdf_elements)\<close>, from index \<open>i\<close> on.\<close>

fun chunk_loop ::
  "'w collaborators \<Rightarrow> string \<Rightarrow> bool \<Rightarrow> string option \<Rightarrow> nat \<Rightarrow> element list \<Rightarrow>
   'w loop_state \<Rightarrow> 'w loop_state" where
  "chunk_loop c pdf_path enh key i [] st = st"
| "chunk_loop c pdf_path enh key i (el # els) st =
     chunk_loop c pdf_path enh key (Suc i) els (loop_body c pdf_path enh key i el st)"

text \<open>Lines 63 to 65: the variables before the loop; \<^verbatim>\<open>metadata\<close> is not yet bound.\<close>

definition initial_state :: "'w \<Rightarrow> 'w loop_state" where
  "initial_state w =
     \<lparr>documents = [], current_title = [], current_text_block = [],
      loop_metadata = None, world = w\<rparr>"

text \<open>Lines 63 to 109: the pass over the elements and the last flush.\<close>

definition chunk_elements ::
  "'w collaborators \<Rightarrow> string \<Rightarrow> bool \<Rightarrow> string option \<Rightarrow> element list \<Rightarrow>
   (document list, 'w) io" where
  "chunk_elements c pdf_path use_enhanced_processing openai_api_key raw_pdf_elements w =
     (let st = chunk_loop c pdf_path use_enhanced_processing openai_api_key 0 raw_pdf_elements
                 (initial_state w)
      in
      if current_text_block st \<noteq> [] then
        (case loop_metadata st of
           None \<Rightarrow> (Inl (UnboundLocalError ''metadata''), world st)
         | Some md \<Rightarrow>
             (Inr (documents st @
                   [text_document (current_title st) (current_text_block st) md]),
              world st))
      else (Inr (documents st), world st))"

text \<open>Lines 42 to 109.\<close>

definition partition_and_chunk ::
  "'w collaborators \<Rightarrow> string \<Rightarrow> bool \<Rightarrow> string option \<Rightarrow> string \<Rightarrow>
   (document list, 'w) io" where
  "partition_and_chunk c pdf_path use_enhanced_processing openai_api_key temp_dir w =
     (if use_enhanced_processing \<and> \<not> truthy openai_api_key then
        (Inl (ValueError ''OpenAI API key is required for enhanced processing.''), w)
      else
        (let image_output_dir = os_path_join temp_dir ''images'' in
         case os_makedirs c image_output_dir w of
           (Inl e, w1) \<Rightarrow> (Inl e, w1)
         | (Inr u, w1) \<Rightarrow>
             (case partition_pdf c pdf_path image_output_dir w1 of
                (Inl e, w2) \<Rightarrow> (Inl e, w2)
              | (Inr raw_pdf_elements, w2) \<Rightarrow>
                  chunk_elements c pdf_path use_enhanced_processing openai_api_key
                    raw_pdf_elements w2)))"

section \<open>The retriever\<close>

text \<open>
  The library calls of \<^verbatim>\<open>create_retriever\<close>: the constructor of the embedding function,
  \<^verbatim>\<open>Chroma.from_documents\<close> and \<^verbatim>\<open>BM25Retriever.from_documents\<close>. What they return
  is opaque to the program: an embedding function \<open>'emb\<close>, a vector store \<open>'vs\<close> and
  a keyword index \<open>'bm\<close>.
\<close>

record 'vs dense_retriever =
  vectorstore :: 'vs
  search_k :: int

record 'bm bm25_retriever =
  bm25_index :: 'bm
  bm25_k :: int

text \<open>
  \<^verbatim>\<open>EnsembleRetriever(retrievers=[dense_retriever, bm25_retriever], weights=[0.7, 0.3])\<close>;
  the two float literals are the decimal fractions they denote.
\<close>

record ('vs, 'bm) ensemble_retriever =
  retrievers :: "'vs dense_retriever \<times> 'bm bm25_retriever"
  weights :: "rat list"

record ('w, 'emb, 'vs, 'bm) retriever_collaborators =
  openai_embeddings :: "string \<Rightarrow> string option \<Rightarrow> ('emb, 'w) io"
  chroma_from_documents :: "document list \<Rightarrow> 'emb \<Rightarrow> ('vs, 'w) io"
  bm25_from_documents :: "document list \<Rightarrow> ('bm bm25_retriever, 'w) io"

text \<open>
  Lines 9 to 34 of \<^verbatim>\<open>vector_store.py\<close>. The result \<^verbatim>\<open>None\<close> is \<open>Inr None\<close>, a retriever
  is \<open>Inr (Some r)\<close>, and \<open>Inl\<close> is an exception of a library call, which the function
  does not catch. The parameter \<^verbatim>\<open>documents\<close> is \<open>docs\<close> here.
\<close>

definition create_retriever ::
  "('w, 'emb, 'vs, 'bm) retriever_collaborators \<Rightarrow> document list \<Rightarrow> string option \<Rightarrow> int \<Rightarrow>
   (('vs, 'bm) ensemble_retriever option, 'w) io" where
  "create_retriever rc docs openai_api_key k w =
     (if docs = [] then (Inr None, w)
      else
        (case openai_embeddings rc ''text-embedding-3-large'' openai_api_key w of
           (Inl e, w1) \<Rightarrow> (Inl e, w1)
         | (Inr embedding_function, w1) \<Rightarrow>
             (case chroma_from_documents rc docs embedding_function w1 of
                (Inl e, w2) \<Rightarrow> (Inl e, w2)
              | (Inr vs, w2) \<Rightarrow>
                  (let dense = \<lparr>vectorstore = vs, search_k = 10\<rparr> in
                   case bm25_from_documents rc docs w2 of
                     (Inl e, w3) \<Rightarrow> (Inl e, w3)
                   | (Inr bm25, w3) \<Rightarrow>
                       (let bm25' = bm25\<lparr>bm25_k := 10\<rparr>;
                            ensemble = \<lparr>retrievers = (dense, bm25'),
                                        weights = [7 / 10, 3 / 10]\<rparr>
                        in (Inr (Some ensemble), w3))))))"

section \<open>Notions used in the properties\<close>

text \<open>The \<^verbatim>\<open>element_id\<close> values of a list of documents, in order.\<close>

abbreviation ids :: "document list \<Rightarrow> int list" where
  "ids ds \<equiv> map (\<lambda>d. element_id (metadata d)) ds"


text \<open>What a state adds to the count of documents: those saved, and the pending block.\<close>

definition units_due :: "'w loop_state \<Rightarrow> nat" where
  "units_due st = length (documents st) + (if current_text_block st = [] then 0 else 1)"

text \<open>Two states of the loop that agree on every variable of the program.\<close>

definition same_variables :: "'w loop_state \<Rightarrow> 'v loop_state \<Rightarrow> bool" where
  "same_variables s t \<longleftrightarrow>
     documents s = documents t \<and> current_title s = current_title t \<and>
     current_text_block s = current_text_block t \<and> loop_metadata s = loop_metadata t"

section \<open>Example collaborators\<close>

text \<open>
  A world that counts the calls made to the chat model. The first call fails (a timeout,
  say), every later call answers. Files are read back as their own path.
\<close>

definition flaky_collaborators :: "nat collaborators" where
  "flaky_collaborators =
     \<lparr>read_file = (\<lambda>p w. (case p of None \<Rightarrow> Inl (ExternalError ''open'') | Some f \<Rightarrow> Inr f, w)),
      b64encode = (\<lambda>s. s),
      chat_invoke = (\<lambda>req w. (if w = 0 then Inl (ExternalError ''timeout'')
                               else Inr ''A chart.'', Suc w)),
      os_makedirs = (\<lambda>d w. (Inr (), w)),
      partition_pdf = (\<lambda>f d w. (Inr [], w))\<rparr>"

text \<open>Library calls that always succeed; the world counts the embedding calls.\<close>

definition plain_retriever_collaborators ::
  "(nat, string \<times> string option, document list, document list) retriever_collaborators" where
  "plain_retriever_collaborators =
     \<lparr>openai_embeddings = (\<lambda>m key w. (Inr (m, key), w)),
      chroma_from_documents = (\<lambda>ds emb w. (Inr ds, Suc w)),
      bm25_from_documents = (\<lambda>ds w. (Inr \<lparr>bm25_index = ds, bm25_k = 4\<rparr>, w))\<rparr>"

text \<open>An element of a given kind and text on a given page, with an image file.\<close>

definition example_element :: "kind \<Rightarrow> string \<Rightarrow> int \<Rightarrow> element" where
  "example_element k t n =
     \<lparr>kind = k, text = t, meta_page_number = Some n,
      meta_image_path = Some ''figure.jpg'', meta_text_as_html = Some ''<table></table>''\<rparr>"

text \<open>A paragraph, an image without text and a paragraph, with no title or header.\<close>

definition example_mixed :: "element list" where
  "example_mixed =
     [example_element NarrativeText ''a'' 1, example_element Image [] 2,
      example_element NarrativeText ''b'' 3]"


text \<open>A title, an image without text and a paragraph.\<close>

definition example_figure :: "element list" where
  "example_figure =
     [example_element Title ''Results'' 1, example_element Image [] 2,
      example_element NarrativeText ''b'' 3]"

text \<open>The state of the loop after a paragraph "a" on page 1: the block is pending.\<close>

definition example_pending :: "nat loop_state" where
  "example_pending =
     loop_body flaky_collaborators ''/tmp/a.pdf'' False (Some ''sk'') 0
       (example_element NarrativeText ''a'' 1) (initial_state 0)"

text \<open>A document to build a retriever for.\<close>

definition example_document :: document where
  "example_document =
     \<lparr>page_content = ''Intro'' @ [nl, nl] @ ''Hello world.'',
      metadata = \<lparr>source = ''a.pdf'', page_number = 1, element_id = 2\<rparr>\<rparr>"

section \<open>The class tests\<close>

lemma isinstance_Text [simp]: "isinstance k Text \<longleftrightarrow> k \<noteq> Other"
  by (auto simp: isinstance_def)

lemma isinstance_named [simp]: "cls \<noteq> Text \<Longrightarrow> isinstance k cls \<longleftrightarrow> k = cls"
  by (simp add: isinstance_def)

lemma is_text_iff: "is_text el \<longleftrightarrow> kind el \<noteq> Other"
  by auto

lemma is_heading_iff: "is_heading el \<longleftrightarrow> kind el = Title \<or> kind el = Header"
  by simp

section \<open>Properties of one iteration\<close>

text \<open>
  An element that reaches line 82 is outside \<^verbatim>\<open>Text\<close>, so it is neither an image nor a
  table: lines 89 to 103 run for no element, and an iteration is what is left of it.
\<close>

lemma loop_body_reached:
  "loop_body c p enh key i el st =
     (let md = element_metadata p i el;
          st1 = st\<lparr>loop_metadata := Some md\<rparr>
      in
      if is_heading el then
        st1\<lparr>documents :=
              (if current_text_block st \<noteq> []
               then documents st @ [text_document (current_title st) (current_text_block st) md]
               else documents st),
            current_title := text el,
            current_text_block := []\<rparr>
      else if is_text el then
        st1\<lparr>current_text_block := current_text_block st @ text el @ [nl]\<rparr>
      else if enh then flush_block md st1
      else st1)"
  by (cases "kind el") (simp_all add: loop_body_def Let_def)

lemma loop_body_metadata:
  "loop_metadata (loop_body c p enh key i el st) = Some (element_metadata p i el)"
  by (simp add: loop_body_reached flush_block_def Let_def)

lemma loop_body_world: "world (loop_body c p enh key i el st) = world st"
  by (simp add: loop_body_reached flush_block_def Let_def)

lemma loop_body_documents:
  "\<exists>new. documents (loop_body c p enh key i el st) = documents st @ new \<and>
     (\<forall>d \<in> set new. metadata d = element_metadata p i el \<and> page_content d \<noteq> [])"
  by (simp add: loop_body_reached flush_block_def Let_def text_document_def)

lemma loop_body_empty_block:
  "current_text_block st = [] \<Longrightarrow> documents (loop_body c p enh key i el st) = documents st"
  by (simp add: loop_body_reached flush_block_def Let_def)

lemma loop_body_units_due:
  "units_due (loop_body c p enh key i el st) \<le> units_due st + (if is_text el then 1 else 0)"
  by (simp add: loop_body_reached flush_block_def Let_def units_due_def)

lemma loop_body_same_variables:
  "same_variables s t \<Longrightarrow>
   same_variables (loop_body c p enh key i el s) (loop_body c' p enh key' i el t)"
  by (simp add: loop_body_reached flush_block_def Let_def same_variables_def)

lemma element_metadata_id [simp]: "element_id (element_metadata p i el) = int i"
  by (simp add: element_metadata_def)

lemma text_document_simps [simp]:
  "page_content (text_document t b md) = t @ [nl, nl] @ strip b"
  "metadata (text_document t b md) = md"
  by (simp_all add: text_document_def)

section \<open>Properties of the loop\<close>

lemma chunk_loop_append:
  "chunk_loop c p enh key i (xs @ ys) st =
   chunk_loop c p enh key (i + length xs) ys (chunk_loop c p enh key i xs st)"
  by (induction xs arbitrary: i st) simp_all

lemma sorted_const_ids: "\<forall>d \<in> set ds. element_id (metadata d) = n \<Longrightarrow> sorted (ids ds)"
  by (induction ds) auto

lemma chunk_loop_documents:
  "\<exists>new. documents (chunk_loop c p enh key i els st) = documents st @ new \<and>
     (\<forall>d \<in> set new. page_content d \<noteq> [] \<and>
        int i \<le> element_id (metadata d) \<and> element_id (metadata d) < int (i + length els)) \<and>
     sorted (ids new)"
proof (induction els arbitrary: i st)
  case Nil
  then show ?case by simp
next
  case (Cons el els)
  obtain new1 where n1: "documents (loop_body c p enh key i el st) = documents st @ new1"
    and p1: "\<forall>d \<in> set new1. metadata d = element_metadata p i el \<and> page_content d \<noteq> []"
    using loop_body_documents by blast
  obtain new2 where n2: "documents (chunk_loop c p enh key (Suc i) els (loop_body c p enh key i el st))
       = documents (loop_body c p enh key i el st) @ new2"
    and p2: "\<forall>d \<in> set new2. page_content d \<noteq> [] \<and>
        int (Suc i) \<le> element_id (metadata d) \<and> element_id (metadata d) < int (Suc i + length els)"
    and s2: "sorted (ids new2)"
    using Cons.IH by blast
  have i1: "\<forall>d \<in> set new1. element_id (metadata d) = int i"
    using p1 by simp
  have s1: "sorted (ids new1)"
    using i1 by (rule sorted_const_ids)
  have le: "\<forall>x \<in> set new1. \<forall>y \<in> set new2. element_id (metadata x) \<le> element_id (metadata y)"
    using i1 p2 by auto
  have s: "sorted (ids (new1 @ new2))"
    using s1 s2 le by (simp add: sorted_append)
  have b: "\<forall>d \<in> set (new1 @ new2). page_content d \<noteq> [] \<and>
        int i \<le> element_id (metadata d) \<and> element_id (metadata d) < int (i + length (el # els))"
    using p1 i1 p2 by auto
  have d: "documents (chunk_loop c p enh key i (el # els) st) = documents st @ (new1 @ new2)"
    using n1 n2 by simp
  show ?case
    using d b s by blast
qed

lemma chunk_loop_metadata:
  "els \<noteq> [] \<Longrightarrow>
   loop_metadata (chunk_loop c p enh key i els st) =
     Some (element_metadata p (i + length els - 1) (last els))"
proof (induction els arbitrary: i st)
  case Nil
  then show ?case by simp
next
  case (Cons el els)
  show ?case
  proof (cases "els = []")
    case True
    then show ?thesis by (simp add: loop_body_metadata)
  next
    case False
    then show ?thesis using Cons.IH[OF False, of "Suc i"] by simp
  qed
qed

lemma chunk_loop_initial_documents:
  "(\<forall>d \<in> set (documents (chunk_loop c p enh key 0 els (initial_state w))).
      page_content d \<noteq> [] \<and> element_id (metadata d) < int (length els)) \<and>
   sorted (ids (documents (chunk_loop c p enh key 0 els (initial_state w))))"
  using chunk_loop_documents[of c p enh key 0 els "initial_state w"]
  by (auto simp: initial_state_def)

lemma chunk_loop_world: "world (chunk_loop c p enh key i els st) = world st"
  by (induction els arbitrary: i st) (simp_all add: loop_body_world)

lemma chunk_loop_units_due:
  "units_due (chunk_loop c p enh key i els st) \<le> units_due st + length (filter is_text els)"
proof (induction els arbitrary: i st)
  case Nil
  then show ?case by simp
next
  case (Cons el els)
  have "units_due (chunk_loop c p enh key (Suc i) els (loop_body c p enh key i el st))
      \<le> units_due (loop_body c p enh key i el st) + length (filter is_text els)"
    by (rule Cons.IH)
  also have "\<dots> \<le> (units_due st + (if is_text el then 1 else 0)) + length (filter is_text els)"
    using loop_body_units_due[of c p enh key i el st] by simp
  also have "\<dots> = units_due st + length (filter is_text (el # els))"
    by simp
  finally show ?case by simp
qed

lemma chunk_loop_same_variables:
  "same_variables s t \<Longrightarrow>
   same_variables (chunk_loop c p enh key i els s) (chunk_loop c' p enh key' i els t)"
proof (induction els arbitrary: i s t)
  case Nil
  then show ?case by simp
next
  case (Cons el els)
  have "same_variables (loop_body c p enh key i el s) (loop_body c' p enh key' i el t)"
    using Cons.prems by (rule loop_body_same_variables)
  from Cons.IH[OF this] show ?case by simp
qed

section \<open>Properties of the whole pass\<close>

text \<open>
  The pass never ends in the \<open>UnboundLocalError\<close>: its result is the documents of the
  loop, followed by the last block when that is not empty, which then carries the
  metadata of the last element.
\<close>

lemma chunk_elements_result:
  "chunk_elements c p enh key els w =
     (let st = chunk_loop c p enh key 0 els (initial_state w) in
      (Inr (documents st @
            (if current_text_block st \<noteq> []
             then [text_document (current_title st) (current_text_block st)
                     (element_metadata p (length els - 1) (last els))]
             else [])), world st))"
proof (cases "els = []")
  case True
  then show ?thesis by (simp add: chunk_elements_def initial_state_def)
next
  case False
  then show ?thesis
    using chunk_loop_metadata[OF False, of c p enh key 0 "initial_state w"]
    by (simp add: chunk_elements_def Let_def)
qed

lemma chunk_elements_total:
  "\<exists>docs w'. chunk_elements c p enh key els w = (Inr docs, w')"
  by (simp add: chunk_elements_result Let_def)

section \<open>Sequences without a title or header\<close>




text \<open>The definitions that evaluate the examples.\<close>

lemmas ex_simps = example_element_def flaky_collaborators_def initial_state_def loop_body_def
  flush_block_def Let_def text_document_def fallback_document_def summary_document_def
  image_summary_def encode_image_def summarize_image_def summarize_table_def
  element_metadata_def basename_def strip_def py_isspace_def

section \<open>The claims\<close>

text \<open>
  C1, as the code has it. On an empty list of documents \<^verbatim>\<open>create_retriever\<close> raises
  nothing: it returns \<^verbatim>\<open>None\<close>, for every key and every \<open>k\<close>, and makes no library call
  (the world is unchanged). No retriever is returned.
\<close>

theorem create_retriever_empty_returns_none:
  "create_retriever rc [] openai_api_key k w = (Inr None, w)"
  by (simp add: create_retriever_def)

text \<open>
  C1 as stated fails: on the empty list the call does not end in an exception, it
  returns \<^verbatim>\<open>None\<close>.
\<close>

theorem create_retriever_empty_counterexample:
  "fst (create_retriever plain_retriever_collaborators [] (Some ''sk-test'') 5 0) = Inr None \<and>
   \<not> isl (fst (create_retriever plain_retriever_collaborators [] (Some ''sk-test'') 5 0))"
  by (simp add: create_retriever_def)

text \<open>
  C2. When enhanced processing is asked for and the OpenAI key is \<^verbatim>\<open>None\<close> or empty,
  \<^verbatim>\<open>partition_and_chunk\<close> raises the \<^verbatim>\<open>ValueError\<close> of line 48, whatever the PDF
  holds and whatever the collaborators would do: no document is returned and the world
  is the one it was called in, so no directory was made, no PDF partitioned and no
  element processed.
\<close>

theorem enhanced_without_key_fails_fast:
  "use_enhanced_processing \<Longrightarrow> \<not> truthy openai_api_key \<Longrightarrow>
   partition_and_chunk c pdf_path use_enhanced_processing openai_api_key temp_dir w =
     (Inl (ValueError ''OpenAI API key is required for enhanced processing.''), w)"
  by (simp add: partition_and_chunk_def)

theorem enhanced_without_key_fails_fast_witness:
  "True \<and> \<not> truthy (Some []) \<and>
   partition_and_chunk flaky_collaborators ''/tmp/report.pdf'' True (Some []) ''/tmp'' 0 =
     (Inl (ValueError ''OpenAI API key is required for enhanced processing.''), 0)"
  using enhanced_without_key_fails_fast
    [of True "Some []" flaky_collaborators "''/tmp/report.pdf''" "''/tmp''" 0]
  by simp

text \<open>
  C6. The elements Title "Intro", NarrativeText "Hello world.", Title "Section 2",
  NarrativeText "More text.", on any pages, chunked without enhanced processing, give
  exactly two documents: "Intro", a blank line, "Hello world.", and "Section 2", a blank
  line, "More text.", in this order. The first carries the metadata of the second
  title, the second that of the last element.
\<close>

theorem scenario_two_sections:
  "chunk_elements c pdf_path False key
     [\<lparr>kind = Title, text = ''Intro'', meta_page_number = p0,
       meta_image_path = i0, meta_text_as_html = h0\<rparr>,
      \<lparr>kind = NarrativeText, text = ''Hello world.'', meta_page_number = p1,
       meta_image_path = i1, meta_text_as_html = h1\<rparr>,
      \<lparr>kind = Title, text = ''Section 2'', meta_page_number = p2,
       meta_image_path = i2, meta_text_as_html = h2\<rparr>,
      \<lparr>kind = NarrativeText, text = ''More text.'', meta_page_number = p3,
       meta_image_path = i3, meta_text_as_html = h3\<rparr>] w =
   (Inr [\<lparr>page_content = ''Intro'' @ [nl, nl] @ ''Hello world.'',
          metadata = element_metadata pdf_path 2
            \<lparr>kind = Title, text = ''Section 2'', meta_page_number = p2,
             meta_image_path = i2, meta_text_as_html = h2\<rparr>\<rparr>,
         \<lparr>page_content = ''Section 2'' @ [nl, nl] @ ''More text.'',
          metadata = element_metadata pdf_path 3
            \<lparr>kind = NarrativeText, text = ''More text.'', meta_page_number = p3,
             meta_image_path = i3, meta_text_as_html = h3\<rparr>\<rparr>], w)"
  by (simp add: chunk_elements_def initial_state_def loop_body_def Let_def text_document_def
      strip_def py_isspace_def numeral_3_eq_3 numeral_2_eq_2)

text \<open>
  C7. Every document the pass returns has non-empty content, for every element sequence,
  with or without enhanced processing and for every key, and an empty text block is never
  flushed: there are at most as many documents as elements that line 79 adds to the
  block; an iteration that finds the block empty appends no document; and when the block
  is empty after the loop, the result is what the loop has saved and no more. The
  documents of lines 94, 96, 101 and 103 would not be empty either, but no element
  reaches these lines.
\<close>

theorem emitted_content_nonempty:
  "(chunk_elements c p enh key els w = (Inr docs, w') \<longrightarrow>
      (\<forall>d \<in> set docs. page_content d \<noteq> []) \<and> length docs \<le> length (filter is_text els)) \<and>
   (current_text_block st = [] \<longrightarrow>
      documents (loop_body c p enh key i el st) = documents st) \<and>
   (current_text_block (chunk_loop c p enh key 0 rest (initial_state w)) = [] \<longrightarrow>
      chunk_elements c p enh key rest w =
        (Inr (documents (chunk_loop c p enh key 0 rest (initial_state w))), w)) \<and>
   page_content (summary_document label t s md) \<noteq> [] \<and>
   page_content (fallback_document label t md) \<noteq> []"
proof (intro conjI impI)
  assume r: "chunk_elements c p enh key els w = (Inr docs, w')"
  let ?st = "chunk_loop c p enh key 0 els (initial_state w)"
  let ?last = "text_document (current_title ?st) (current_text_block ?st)
                 (element_metadata p (length els - 1) (last els))"
  have docs: "docs = documents ?st @ (if current_text_block ?st \<noteq> [] then [?last] else [])"
    using r by (simp add: chunk_elements_result Let_def)
  have content: "\<forall>d \<in> set (documents ?st). page_content d \<noteq> []"
    using chunk_loop_initial_documents[of c p enh key els w] by blast
  show "\<forall>d \<in> set docs. page_content d \<noteq> []"
    unfolding docs using content by auto
  have "length docs = units_due ?st"
    unfolding docs by (simp add: units_due_def)
  also have "\<dots> \<le> units_due (initial_state w) + length (filter is_text els)"
    by (rule chunk_loop_units_due)
  also have "\<dots> = length (filter is_text els)"
    by (simp add: units_due_def initial_state_def)
  finally show "length docs \<le> length (filter is_text els)" .
next
  assume "current_text_block st = []"
  then show "documents (loop_body c p enh key i el st) = documents st"
    by (rule loop_body_empty_block)
next
  assume "current_text_block (chunk_loop c p enh key 0 rest (initial_state w)) = []"
  then show "chunk_elements c p enh key rest w =
        (Inr (documents (chunk_loop c p enh key 0 rest (initial_state w))), w)"
    by (simp add: chunk_elements_result Let_def chunk_loop_world initial_state_def)
next
  show "page_content (summary_document label t s md) \<noteq> []"
    by (simp add: summary_document_def)
next
  show "page_content (fallback_document label t md) \<noteq> []"
    by (simp add: fallback_document_def)
qed

theorem emitted_content_nonempty_witness:
  "chunk_elements flaky_collaborators ''/tmp/a.pdf'' True (Some ''sk'') example_mixed 0 =
     (Inr [\<lparr>page_content = [nl, nl] @ ''a'' @ [nl, nl] @ ''b'',
            metadata = \<lparr>source = ''a.pdf'', page_number = 3, element_id = 2\<rparr>\<rparr>], 0) \<and>
   [nl, nl] @ ''a'' @ [nl, nl] @ ''b'' \<noteq> [] \<and>
   length (filter is_text example_mixed) = 3 \<and>
   current_text_block (initial_state (0::nat)) = [] \<and>
   documents (loop_body flaky_collaborators ''/tmp/a.pdf'' True (Some ''sk'') 0
                (example_element Title ''T'' 1) (initial_state 0)) = [] \<and>
   chunk_elements flaky_collaborators ''/tmp/a.pdf'' True (Some ''sk'')
     [example_element Title ''T'' 1] 0 = (Inr [], 0)"
proof -
  have run: "chunk_elements flaky_collaborators ''/tmp/a.pdf'' True (Some ''sk'') example_mixed 0 =
     (Inr [\<lparr>page_content = [nl, nl] @ ''a'' @ [nl, nl] @ ''b'',
            metadata = \<lparr>source = ''a.pdf'', page_number = 3, element_id = 2\<rparr>\<rparr>], 0)"
    by (simp add: chunk_elements_def example_mixed_def ex_simps)
  have texts: "length (filter is_text example_mixed) = 3"
    by (simp add: example_mixed_def example_element_def)
  have empty: "current_text_block
      (chunk_loop flaky_collaborators ''/tmp/a.pdf'' True (Some ''sk'') 0
         [example_element Title ''T'' 1] (initial_state 0)) = []"
    by (simp add: ex_simps)
  have saved: "documents
      (chunk_loop flaky_collaborators ''/tmp/a.pdf'' True (Some ''sk'') 0
         [example_element Title ''T'' 1] (initial_state 0)) = []"
    by (simp add: ex_simps)
  show ?thesis
    using emitted_content_nonempty
      [where c = flaky_collaborators and p = "''/tmp/a.pdf''" and enh = True
         and key = "Some ''sk''" and els = example_mixed and w = 0 and w' = 0
         and st = "initial_state 0" and el = "example_element Title ''T'' 1" and i = 0
         and rest = "[example_element Title ''T'' 1]"
         and docs = "[\<lparr>page_content = [nl, nl] @ ''a'' @ [nl, nl] @ ''b'',
            metadata = \<lparr>source = ''a.pdf'', page_number = 3, element_id = 2\<rparr>\<rparr>]"]
      run texts empty saved
    by (simp add: initial_state_def)
qed

text \<open>
  C9. The pass returns its documents in the order of the elements that triggered them:
  the \<^verbatim>\<open>element_id\<close> values of the result never decrease. On the empty element
  sequence the result is the empty list, with no error and no call made.
\<close>

theorem chunker_preserves_order:
  "(\<exists>docs w'. chunk_elements c p enh key els w = (Inr docs, w') \<and> sorted (ids docs)) \<and>
   chunk_elements c p enh key [] w = (Inr [], w)"
proof
  let ?st = "chunk_loop c p enh key 0 els (initial_state w)"
  let ?last = "text_document (current_title ?st) (current_text_block ?st)
                 (element_metadata p (length els - 1) (last els))"
  have inv: "\<forall>d \<in> set (documents ?st). element_id (metadata d) < int (length els)"
    and srt: "sorted (ids (documents ?st))"
    using chunk_loop_initial_documents[of c p enh key els w] by blast+
  have "sorted (ids (documents ?st @ [?last]))"
  proof -
    have "\<forall>d \<in> set (documents ?st). element_id (metadata d) \<le> int (length els - 1)"
      using inv by fastforce
    then show ?thesis using srt by (simp add: sorted_append)
  qed
  then have "sorted (ids (documents ?st @ (if current_text_block ?st \<noteq> [] then [?last] else [])))"
    using srt by simp
  then show "\<exists>docs w'. chunk_elements c p enh key els w = (Inr docs, w') \<and> sorted (ids docs)"
    by (simp add: chunk_elements_result Let_def)
next
  show "chunk_elements c p enh key [] w = (Inr [], w)"
    by (simp add: chunk_elements_def initial_state_def)
qed

text \<open>
  C3 describes what lines 82 to 103 are written to do, and the program does not do it. An
  image is an instance of \<^verbatim>\<open>Text\<close>, so line 79 takes it before line 82 is tried: a
  title "Results", an image and a paragraph "b", chunked with enhanced processing and a
  chat model that would fail, give the single document "Results", a blank line, "b". No
  unit "[Image under 'Results']" is emitted, and the world is the one the pass was given:
  the chat model was not called.
\<close>

theorem enhanced_image_not_summarised:
  "chunk_elements flaky_collaborators ''/tmp/a.pdf'' True (Some ''sk'') example_figure 0 =
     (Inr [\<lparr>page_content = ''Results'' @ [nl, nl] @ ''b'',
            metadata = \<lparr>source = ''a.pdf'', page_number = 3, element_id = 2\<rparr>\<rparr>], 0) \<and>
   isl (fst (image_summary flaky_collaborators (example_element Image [] 2) (Some ''sk'') 0))"
  by (simp add: chunk_elements_def example_figure_def ex_simps)

text \<open>
  C4. A flush carries the metadata of the element that triggered it. When a title or
  header meets a pending block, exactly one document is appended: the block, with the
  metadata (source, page number, index) of that title or header. When an element that is
  neither a heading nor an instance of \<^verbatim>\<open>Text\<close> meets a pending block in an enhanced
  pass, exactly one document is appended: the block, with the metadata of that element.
  When a block is still pending after the loop, the sequence is not empty and the last
  document is the block with the metadata of the last element of the sequence.
\<close>

theorem flush_metadata_from_trigger:
  "(current_text_block st \<noteq> [] \<and> is_heading el \<longrightarrow>
      documents (loop_body c p enh key i el st) =
        documents st @
          [text_document (current_title st) (current_text_block st) (element_metadata p i el)]) \<and>
   (current_text_block st' \<noteq> [] \<and> \<not> is_heading el' \<and> \<not> is_text el' \<longrightarrow>
      documents (loop_body c p True key i' el' st') =
        documents st' @
          [text_document (current_title st') (current_text_block st')
             (element_metadata p i' el')]) \<and>
   (let fin = chunk_loop c p enh key 0 els (initial_state w) in
    current_text_block fin \<noteq> [] \<longrightarrow>
      els \<noteq> [] \<and>
      chunk_elements c p enh key els w =
        (Inr (documents fin @
              [text_document (current_title fin) (current_text_block fin)
                 (element_metadata p (length els - 1) (last els))]), world fin))"
proof (intro conjI)
  show "current_text_block st \<noteq> [] \<and> is_heading el \<longrightarrow>
      documents (loop_body c p enh key i el st) =
        documents st @
          [text_document (current_title st) (current_text_block st) (element_metadata p i el)]"
    by (simp add: loop_body_reached Let_def)
next
  show "current_text_block st' \<noteq> [] \<and> \<not> is_heading el' \<and> \<not> is_text el' \<longrightarrow>
      documents (loop_body c p True key i' el' st') =
        documents st' @
          [text_document (current_title st') (current_text_block st')
             (element_metadata p i' el')]"
    by (simp add: loop_body_reached flush_block_def Let_def)
next
  show "let fin = chunk_loop c p enh key 0 els (initial_state w) in
    current_text_block fin \<noteq> [] \<longrightarrow>
      els \<noteq> [] \<and>
      chunk_elements c p enh key els w =
        (Inr (documents fin @
              [text_document (current_title fin) (current_text_block fin)
                 (element_metadata p (length els - 1) (last els))]), world fin)"
  proof (cases "els = []")
    case True
    then show ?thesis by (simp add: initial_state_def)
  next
    case False
    then show ?thesis by (simp add: chunk_elements_result Let_def)
  qed
qed

theorem flush_metadata_from_trigger_witness:
  "current_text_block example_pending \<noteq> [] \<and>
   is_heading (example_element Title ''T'' 7) \<and>
   documents (loop_body flaky_collaborators ''/tmp/a.pdf'' False (Some ''sk'') 1
                (example_element Title ''T'' 7) example_pending) =
     [\<lparr>page_content = [nl, nl] @ ''a'',
       metadata = \<lparr>source = ''a.pdf'', page_number = 7, element_id = 1\<rparr>\<rparr>] \<and>
   kind (example_element Other [] 9) = Other \<and>
   documents (loop_body flaky_collaborators ''/tmp/a.pdf'' True (Some ''sk'') 1
                (example_element Other [] 9) example_pending) =
     [\<lparr>page_content = [nl, nl] @ ''a'',
       metadata = \<lparr>source = ''a.pdf'', page_number = 9, element_id = 1\<rparr>\<rparr>] \<and>
   chunk_elements flaky_collaborators ''/tmp/a.pdf'' False (Some ''sk'')
     [example_element NarrativeText ''a'' 1, example_element Other [] 4] 0 =
     (Inr [\<lparr>page_content = [nl, nl] @ ''a'',
            metadata = \<lparr>source = ''a.pdf'', page_number = 4, element_id = 1\<rparr>\<rparr>], 0)"
proof -
  have pending: "example_pending =
      \<lparr>documents = [], current_title = [], current_text_block = ''a'' @ [nl],
       loop_metadata = Some \<lparr>source = ''a.pdf'', page_number = 1, element_id = 0\<rparr>,
       world = 0\<rparr>"
    by (simp add: example_pending_def ex_simps)
  let ?els = "[example_element NarrativeText ''a'' 1, example_element Other [] 4]"
  have fin: "chunk_loop flaky_collaborators ''/tmp/a.pdf'' False (Some ''sk'') 0 ?els
               (initial_state 0) =
      \<lparr>documents = [], current_title = [], current_text_block = ''a'' @ [nl],
       loop_metadata = Some \<lparr>source = ''a.pdf'', page_number = 4, element_id = 1\<rparr>,
       world = 0\<rparr>"
    by (simp add: ex_simps)
  have md: "element_metadata ''/tmp/a.pdf'' i (example_element k t n) =
      \<lparr>source = ''a.pdf'', page_number = (if n = 0 then 1 else n), element_id = int i\<rparr>" for i k t n
    by (simp add: ex_simps)
  have kinds: "kind (example_element k t n) = k" for k t n
    by (simp add: example_element_def)
  show ?thesis
    using flush_metadata_from_trigger
      [where st = example_pending and el = "example_element Title ''T'' 7"
         and c = flaky_collaborators and p = "''/tmp/a.pdf''" and enh = False
         and key = "Some ''sk''" and i = 1 and st' = example_pending
         and el' = "example_element Other [] 9" and i' = 1 and els = ?els and w = 0]
    unfolding fin
    by (simp add: pending kinds md text_document_def strip_def py_isspace_def)
qed

text \<open>
  C10. The parameter \<open>k\<close> of \<^verbatim>\<open>create_retriever\<close> has no effect: two calls that differ
  only in \<open>k\<close> are equal, in result and in their effect on the world. On a non-empty list
  of documents a call that returns has built an ensemble whose dense retriever has depth
  10, whose keyword retriever has depth 10, and whose weights are 0.7 and 0.3.
\<close>

theorem create_retriever_ignores_k:
  "create_retriever rc docs key k w = create_retriever rc docs key k' w \<and>
   (docs \<noteq> [] \<and> create_retriever rc docs key k w = (Inr r, w') \<longrightarrow>
      (\<exists>e. r = Some e \<and> search_k (fst (retrievers e)) = 10 \<and>
            bm25_k (snd (retrievers e)) = 10 \<and> weights e = [7 / 10, 3 / 10]))"
  by (auto simp: create_retriever_def Let_def split: prod.splits sum.splits)

theorem create_retriever_ignores_k_witness:
  "[example_document] \<noteq> [] \<and>
   create_retriever plain_retriever_collaborators [example_document] (Some ''sk'') 5 0 =
     create_retriever plain_retriever_collaborators [example_document] (Some ''sk'') 50 0 \<and>
   create_retriever plain_retriever_collaborators [example_document] (Some ''sk'') 50 0 =
     (Inr (Some \<lparr>retrievers = (\<lparr>vectorstore = [example_document], search_k = 10\<rparr>,
                                \<lparr>bm25_index = [example_document], bm25_k = 10\<rparr>),
                  weights = [7 / 10, 3 / 10]\<rparr>), 1)"
proof -
  have run: "create_retriever plain_retriever_collaborators [example_document] (Some ''sk'') 5 0 =
     (Inr (Some \<lparr>retrievers = (\<lparr>vectorstore = [example_document], search_k = 10\<rparr>,
                                \<lparr>bm25_index = [example_document], bm25_k = 10\<rparr>),
                  weights = [7 / 10, 3 / 10]\<rparr>), 1)"
    by (simp add: create_retriever_def plain_retriever_collaborators_def)
  show ?thesis
    using create_retriever_ignores_k
      [of plain_retriever_collaborators "[example_document]" "Some ''sk''" 5 0 50] run
    by simp
qed




text \<open>
  C8. Chunking the same element sequence with the same flag gives the same documents, in
  the same order, in whatever state of the world and with whatever collaborators and key
  the two runs are made. The pass calls no collaborator: the world it returns is the one
  it was given.
\<close>

theorem rechunking_identical:
  "fst (chunk_elements c p enh key els w1) = fst (chunk_elements c' p enh key' els w2) \<and>
   snd (chunk_elements c p enh key els w1) = w1"
proof
  have "same_variables (initial_state w1) (initial_state w2)"
    by (simp add: same_variables_def initial_state_def)
  from chunk_loop_same_variables[OF this, of c p enh key 0 els c' key']
  show "fst (chunk_elements c p enh key els w1) = fst (chunk_elements c' p enh key' els w2)"
    by (simp add: chunk_elements_result Let_def same_variables_def)
next
  show "snd (chunk_elements c p enh key els w1) = w1"
    by (simp add: chunk_elements_result Let_def chunk_loop_world initial_state_def)
qed

end
